theory Spec2Isabelle
  imports Complex_Main
begin

section \<open>ResQLink: a shallow embedding of the mesh simulation\<close>

text \<open>
  The Python sources \<^verbatim>\<open>messages.py\<close>, \<^verbatim>\<open>lml_model.py\<close> and \<^verbatim>\<open>mesh.py\<close>
  are translated function by function.

  Numbers. Python's \<^verbatim>\<open>int\<close> is \<^typ>\<open>int\<close>. Python's \<^verbatim>\<open>float\<close> is modelled by
  \<^typ>\<open>real\<close> with exact arithmetic: the double rounding of each operation, infinities
  and NaN are not modelled. \<^verbatim>\<open>max\<close>, \<^verbatim>\<open>min\<close> and comparisons are exact in both.
  The properties below hold of the doubles as well: they rest on comparisons with
  constants, on clipping and on signs. A property that depends on the rounding, such as
  which of two nearly equal scores is the greater, is not stated here.

  Strings. \<^typ>\<open>string\<close> is a list of 8-bit characters, read as the code points
  below 256; the texts modelled are the texts of such code points, on which
  \<^verbatim>\<open>str.lower\<close> and \<^verbatim>\<open>str.strip\<close> are as defined below.
\<close>

subsection \<open>messages.py\<close>

datatype MsgType = DISTRESS | GPS | STATUS | SUPPLY | UNKNOWN

text \<open>The values a \<^verbatim>\<open>meta\<close> dictionary may hold, with Python's truth value.\<close>

datatype pyval = VNone | VBool bool | VInt int | VNum real | VStr string

fun truthy :: "pyval \<Rightarrow> bool" where
  "truthy VNone = False"
| "truthy (VBool b) = b"
| "truthy (VInt i) = (i \<noteq> 0)"
| "truthy (VNum r) = (r \<noteq> 0)"
| "truthy (VStr s) = (s \<noteq> [])"

record Message =
  src :: string
  dst :: "string option"
  msg_text :: string
  gps :: "(real \<times> real) option"
  timestamp :: real
  mid :: string
  meta :: "string \<rightharpoonup> pyval"
  priority :: real
  mtype :: MsgType
  hops :: int
  path :: "string list"

subsection \<open>lml\_model.py: strings and keyword sets\<close>

definition DISTRESS_KEYWORDS :: "string list" where
  "DISTRESS_KEYWORDS =
    [''help'', ''mayday'', ''sos'', ''emergency'', ''trapped'', ''injury'', ''bleeding'',
     ''collapsed'', ''fire'', ''danger'', ''earthquake'', ''flood'', ''hurricane'',
     ''wildfire'', ''bomb'', ''attack'']"

definition GPS_KEYWORDS :: "string list" where
  "GPS_KEYWORDS = [''lat'', ''lon'', ''gps'', ''coordinates'', ''location'', ''pos'', ''grid'']"

definition SUPPLY_KEYWORDS :: "string list" where
  "SUPPLY_KEYWORDS =
    [''water'', ''food'', ''medicine'', ''insulin'', ''tent'', ''blanket'', ''generator'', ''fuel'']"

definition STATUS_KEYWORDS :: "string list" where
  "STATUS_KEYWORDS = [''ok'', ''alive'', ''safe'', ''status'', ''update'', ''checkin'', ''fine'']"

text \<open>
  \<^verbatim>\<open>str.lower\<close> on the code points below 256: the letters A to Z and the letters
  0xC0 to 0xDE (without the sign 0xD7) move up by 0x20, every other character stays.
\<close>

definition upper_chars :: string where
  "upper_chars = ''ABCDEFGHIJKLMNOPQRSTUVWXYZ'' @
     [CHR 0xC0, CHR 0xC1, CHR 0xC2, CHR 0xC3, CHR 0xC4, CHR 0xC5, CHR 0xC6, CHR 0xC7,
      CHR 0xC8, CHR 0xC9, CHR 0xCA, CHR 0xCB, CHR 0xCC, CHR 0xCD, CHR 0xCE, CHR 0xCF,
      CHR 0xD0, CHR 0xD1, CHR 0xD2, CHR 0xD3, CHR 0xD4, CHR 0xD5, CHR 0xD6,
      CHR 0xD8, CHR 0xD9, CHR 0xDA, CHR 0xDB, CHR 0xDC, CHR 0xDD, CHR 0xDE]"

definition lower_chars :: string where
  "lower_chars = ''abcdefghijklmnopqrstuvwxyz'' @
     [CHR 0xE0, CHR 0xE1, CHR 0xE2, CHR 0xE3, CHR 0xE4, CHR 0xE5, CHR 0xE6, CHR 0xE7,
      CHR 0xE8, CHR 0xE9, CHR 0xEA, CHR 0xEB, CHR 0xEC, CHR 0xED, CHR 0xEE, CHR 0xEF,
      CHR 0xF0, CHR 0xF1, CHR 0xF2, CHR 0xF3, CHR 0xF4, CHR 0xF5, CHR 0xF6,
      CHR 0xF8, CHR 0xF9, CHR 0xFA, CHR 0xFB, CHR 0xFC, CHR 0xFD, CHR 0xFE]"

definition lower_char :: "char \<Rightarrow> char" where
  "lower_char c =
    (case map_of (zip upper_chars lower_chars) c of
       Some l \<Rightarrow> l
     | None \<Rightarrow> c)"

definition lower :: "string \<Rightarrow> string" where
  "lower s = map lower_char s"

text \<open>
  \<^verbatim>\<open>str.strip\<close> removes leading and trailing whitespace; the code points below 256
  for which \<^verbatim>\<open>str.isspace\<close> holds are 0x09 to 0x0D, 0x1C to 0x1F, the blank, 0x85
  and 0xA0.
\<close>

definition is_space :: "char \<Rightarrow> bool" where
  "is_space c \<longleftrightarrow>
    c \<in> set [CHR 0x09, CHR 0x0A, CHR 0x0B, CHR 0x0C, CHR 0x0D,
             CHR 0x1C, CHR 0x1D, CHR 0x1E, CHR 0x1F, CHR '' '', CHR 0x85, CHR 0xA0]"

definition strip :: "string \<Rightarrow> string" where
  "strip s = rev (dropWhile is_space (rev (dropWhile is_space s)))"

text \<open>\<^verbatim>\<open>w in text\<close>: \<open>w\<close> occurs in \<open>t\<close> as a contiguous substring.\<close>

fun starts_with :: "string \<Rightarrow> string \<Rightarrow> bool" where
  "starts_with t [] = True"
| "starts_with [] (c # w) = False"
| "starts_with (a # t) (c # w) = (a = c \<and> starts_with t w)"

fun substring_in :: "string \<Rightarrow> string \<Rightarrow> bool" where
  "substring_in w [] = (w = [])"
| "substring_in w (a # t) = (starts_with (a # t) w \<or> substring_in w t)"

text \<open>
  One of the four counting loops of \<^verbatim>\<open>classify\<close>: one point for every keyword of the
  set that occurs in the text. The order in which a Python set is iterated does not
  change the count.
\<close>

definition keyword_hits :: "string list \<Rightarrow> string \<Rightarrow> nat" where
  "keyword_hits kws t = length (filter (\<lambda>w. substring_in w t) kws)"

definition softclip :: "real \<Rightarrow> real \<Rightarrow> real \<Rightarrow> real" where
  "softclip x lo hi = max lo (min hi x)"

text \<open>
  \<^verbatim>\<open>max(score, key=score.get)\<close> walks the dictionary in insertion order and keeps the
  first key whose value is maximal: a later key replaces the current one only when its
  value is strictly greater.
\<close>

fun max_key_from :: "'k \<times> real \<Rightarrow> ('k \<times> real) list \<Rightarrow> 'k \<times> real" where
  "max_key_from best [] = best"
| "max_key_from best (kv # rest) =
     max_key_from (if snd kv > snd best then kv else best) rest"

subsection \<open>LMLModel.classify\<close>

text \<open>
  The dictionary \<^verbatim>\<open>score\<close> after the four counting loops and the coordinate bonus,
  in its insertion order DISTRESS, GPS, SUPPLY, STATUS, as its first entry and the rest.
\<close>

definition gps_score :: "Message \<Rightarrow> real" where
  "gps_score msg =
     real (keyword_hits GPS_KEYWORDS (lower (msg_text msg)))
       + (if gps msg \<noteq> None then 2.5 else 0)"

definition score_first :: "Message \<Rightarrow> MsgType \<times> real" where
  "score_first msg = (DISTRESS, real (keyword_hits DISTRESS_KEYWORDS (lower (msg_text msg))))"

definition score_rest :: "Message \<Rightarrow> (MsgType \<times> real) list" where
  "score_rest msg =
     [(GPS, gps_score msg),
      (SUPPLY, real (keyword_hits SUPPLY_KEYWORDS (lower (msg_text msg)))),
      (STATUS, real (keyword_hits STATUS_KEYWORDS (lower (msg_text msg))))]"

definition classify :: "Message \<Rightarrow> MsgType \<times> real" where
  "classify msg =
    (if length (strip (lower (msg_text msg))) = 0 \<and> gps msg = None then (UNKNOWN, 0.2)
     else
       let (mt, s) = max_key_from (score_first msg) (score_rest msg);
           conf = softclip (s / 3.0) 0.1 0.99;
           conf = (if mt = DISTRESS \<and> s \<ge> 2 then softclip (conf + 0.2) 0 1 else conf)
       in (mt, conf))"

subsection \<open>LMLModel.prioritize\<close>

text \<open>
  A context dictionary \<^verbatim>\<open>net_ctx\<close> maps names to integer counts;
  \<^verbatim>\<open>net_ctx.get(k, d)\<close> is \<open>ctx_get\<close>.
\<close>

type_synonym net_ctx = "string \<rightharpoonup> int"

definition ctx_get :: "net_ctx \<Rightarrow> string \<Rightarrow> int \<Rightarrow> int" where
  "ctx_get ctx k d = (case ctx k of None \<Rightarrow> d | Some v \<Rightarrow> v)"

fun base_priority :: "MsgType \<Rightarrow> real" where
  "base_priority DISTRESS = 0.95"
| "base_priority GPS = 0.75"
| "base_priority SUPPLY = 0.6"
| "base_priority STATUS = 0.4"
| "base_priority UNKNOWN = 0.3"

text \<open>The reading of \<^verbatim>\<open>time.time()\<close> is the argument \<open>now\<close>.\<close>

definition prioritize :: "Message \<Rightarrow> net_ctx \<Rightarrow> real \<Rightarrow> real" where
  "prioritize msg ctx now =
    (let base = base_priority (mtype msg);
         age = now - timestamp msg;
         recency = softclip (1.0 - age / 600.0) 0.0 1.0;
         qlen = ctx_get ctx ''queue_len'' 0;
         congestion = softclip (1.0 - real_of_int qlen / 50.0) 0.2 1.0;
         prio = base * 0.7 + 0.25 * recency + 0.05 * congestion;
         prio = (if mtype msg = GPS \<and>
                    ((case meta msg ''tag_distress'' of None \<Rightarrow> False | Some v \<Rightarrow> truthy v)
                     \<or> substring_in ''help'' (lower (msg_text msg)))
                 then max prio 0.85 else prio)
     in softclip prio 0.0 1.0)"

subsection \<open>LMLModel.route\<close>

datatype error = ZeroDivisionError | KeyError | IndexError

text \<open>
  The statistics of one candidate: a dictionary read with \<^verbatim>\<open>stats.get\<close>, so each of
  its four keys may be missing. A missing \<^verbatim>\<open>distance_to_dst\<close> and one stored as
  \<^verbatim>\<open>None\<close> are read alike.
\<close>

record hop_stats =
  rssi :: "real option"
  loss :: "real option"
  queue :: "int option"
  distance_to_dst :: "real option"

text \<open>
  The score of one candidate, the body of the loop of \<^verbatim>\<open>route\<close> up to the comparison.
  The two divisions raise \<^verbatim>\<open>ZeroDivisionError\<close> on a zero divisor.
\<close>

definition route_score :: "real \<Rightarrow> hop_stats \<Rightarrow> error + real" where
  "route_score prio stats =
    (let rssi = (case rssi stats of None \<Rightarrow> -80 | Some r \<Rightarrow> r);
         loss = (case loss stats of None \<Rightarrow> 0.2 | Some l \<Rightarrow> l);
         q = (case queue stats of None \<Rightarrow> 0 | Some q \<Rightarrow> q);
         dist = distance_to_dst stats;
         link_quality = (rssi + 100) / 60.0;
         reliability = 1.0 - softclip loss 0.0 0.9
     in if 1.0 + real_of_int q = 0 then Inl ZeroDivisionError
        else
          let queue_pen = 1.0 / (1.0 + real_of_int q) in
          case (case dist of
                  None \<Rightarrow> Inr 0.0
                | Some d \<Rightarrow> if 1.0 + d = 0 then Inl ZeroDivisionError else Inr (1.0 / (1.0 + d))) of
            Inl e \<Rightarrow> Inl e
          | Inr dist_term \<Rightarrow>
              let p = softclip prio 0 1;
                  weight_dist = 0.4 + 0.3 * p;
                  weight_rel = 0.3 + 0.2 * p;
                  weight_ql = 0.2;
                  weight_queue = 0.1
              in Inr (weight_dist * dist_term + weight_rel * reliability
                        + weight_ql * link_quality + weight_queue * queue_pen))"

text \<open>
  The loop over \<^verbatim>\<open>next_hops.items()\<close>, in the dictionary's insertion order, carrying
  \<^verbatim>\<open>best_node\<close> and \<^verbatim>\<open>best_score\<close>.
\<close>

fun route_loop ::
  "real \<Rightarrow> (string \<times> hop_stats) list \<Rightarrow> string option \<Rightarrow> real \<Rightarrow> error + string option" where
  "route_loop prio [] best_node best_score = Inr best_node"
| "route_loop prio ((nid, stats) # rest) best_node best_score =
     (case route_score prio stats of
        Inl e \<Rightarrow> Inl e
      | Inr score \<Rightarrow>
          if score > best_score then route_loop prio rest (Some nid) score
          else route_loop prio rest best_node best_score)"

definition route ::
  "(string \<times> hop_stats) list \<Rightarrow> net_ctx \<Rightarrow> Message \<Rightarrow> error + string option" where
  "route next_hops ctx msg =
    (if next_hops = [] then Inr None
     else route_loop (priority msg) next_hops None (- 1000000000))"

subsection \<open>LMLModel.anomaly\_score\<close>

record LMLModel =
  node_id :: string
  recent_in :: int
  recent_out :: int
  recent_fail :: int
  last_tick :: real

text \<open>
  The divisors \<^verbatim>\<open>dt\<close> and \<^verbatim>\<open>max(1.0, attempts)\<close> are at least 0.001 and 1; the
  divisor \<^verbatim>\<open>1+in_rate+out_rate\<close> can be zero, and the division then raises. The
  result is the score and the model with \<^verbatim>\<open>_last_tick\<close> advanced.
\<close>

definition anomaly_score :: "LMLModel \<Rightarrow> net_ctx \<Rightarrow> real \<Rightarrow> error + real \<times> LMLModel" where
  "anomaly_score mdl ctx now =
    (let dt = max 0.001 (now - last_tick mdl);
         mdl = mdl\<lparr>last_tick := now\<rparr>;
         in_rate = real_of_int (ctx_get ctx ''in_count'' 0) / dt;
         out_rate = real_of_int (ctx_get ctx ''out_count'' 0) / dt;
         fail_rate = real_of_int (ctx_get ctx ''fail_count'' 0)
                       / max 1.0 (real_of_int (ctx_get ctx ''attempts'' 1)) / dt;
         qlen = ctx_get ctx ''queue_len'' 0;
         qterm = softclip (real_of_int qlen / 50.0) 0.0 1.0
     in if 1 + in_rate + out_rate = 0 then Inl ZeroDivisionError
        else Inr (softclip (0.6 * fail_rate + 0.3 * qterm
                     + 0.1 * \<bar>in_rate - out_rate\<bar> / (1 + in_rate + out_rate)) 0.0 1.0, mdl))"

subsection \<open>mesh.py: the store\<close>

text \<open>
  Nodes and messages are objects that are shared and updated in place: a message sits
  in the queue of one node while another node holds it in its delivered list, and a
  link is held by both of its ends. They live in a store, addressed by numbers; queues,
  delivered lists and links hold addresses. The store is total, as a Python reference
  never dangles.

  \<^verbatim>\<open>random.random()\<close> and \<^verbatim>\<open>time.time()\<close> read the next value of a sequence given
  with the world; the positions count the readings made so far.
\<close>

record Link =
  link_a :: nat
  link_b :: nat
  base_loss :: real
  queue_delay :: real

record Stats =
  in_count :: int
  out_count :: int
  fail_count :: int
  attempts :: int
  queue_len :: int

record Node =
  nid :: string
  pos_x :: real
  pos_y :: real
  links :: "(string \<times> Link) list"
  model :: LMLModel
  in_queue :: "nat list"
  out_stats :: Stats
  delivered :: "nat list"
  running :: bool

record World =
  nodes :: "nat \<Rightarrow> Node"
  msgs :: "nat \<Rightarrow> Message"
  rand :: "nat \<Rightarrow> real"
  rand_pos :: nat
  clock :: "nat \<Rightarrow> real"
  clock_pos :: nat

definition random_random :: "World \<Rightarrow> real \<times> World" where
  "random_random w = (rand w (rand_pos w), w\<lparr>rand_pos := Suc (rand_pos w)\<rparr>)"

definition time_time :: "World \<Rightarrow> real \<times> World" where
  "time_time w = (clock w (clock_pos w), w\<lparr>clock_pos := Suc (clock_pos w)\<rparr>)"

definition upd_node :: "nat \<Rightarrow> (Node \<Rightarrow> Node) \<Rightarrow> World \<Rightarrow> World" where
  "upd_node n f w = w\<lparr>nodes := (nodes w)(n := f (nodes w n))\<rparr>"

definition upd_msg :: "nat \<Rightarrow> (Message \<Rightarrow> Message) \<Rightarrow> World \<Rightarrow> World" where
  "upd_msg m f w = w\<lparr>msgs := (msgs w)(m := f (msgs w m))\<rparr>"

definition upd_stats :: "nat \<Rightarrow> (Stats \<Rightarrow> Stats) \<Rightarrow> World \<Rightarrow> World" where
  "upd_stats n f w = upd_node n (\<lambda>nd. nd\<lparr>out_stats := f (out_stats nd)\<rparr>) w"

text \<open>The dictionary \<^verbatim>\<open>_out_stats\<close> as it is handed to the model.\<close>

definition stats_ctx :: "Stats \<Rightarrow> net_ctx" where
  "stats_ctx st =
     [''in_count'' \<mapsto> in_count st, ''out_count'' \<mapsto> out_count st,
      ''fail_count'' \<mapsto> fail_count st, ''attempts'' \<mapsto> attempts st,
      ''queue_len'' \<mapsto> queue_len st]"

subsection \<open>Link.stats\_for and the Node methods\<close>

definition distance_to :: "Node \<Rightarrow> Node \<Rightarrow> real" where
  "distance_to s d = sqrt ((pos_x s - pos_x d)\<^sup>2 + (pos_y s - pos_y d)\<^sup>2)"

text \<open>
  \<^verbatim>\<open>stats_for\<close> draws two random numbers, one in whichever branch of the conditional
  for \<^verbatim>\<open>rssi\<close> is taken and one for \<^verbatim>\<open>loss\<close>.
\<close>

definition stats_for :: "Link \<Rightarrow> nat \<Rightarrow> nat \<Rightarrow> World \<Rightarrow> hop_stats \<times> World" where
  "stats_for l s d w =
    (let (r1, w) = random_random w;
         rssi = (if distance_to (nodes w s) (nodes w d) < 1.0 then -40 - 5 * r1
                 else -70 - 10 * r1);
         (r2, w) = random_random w;
         loss = min 0.9 (base_loss l + 0.05 * r2);
         qlen = int (length (in_queue (nodes w d)));
         dist = distance_to (nodes w s) (nodes w d)
     in (\<lparr>rssi = Some rssi, loss = Some loss, queue = Some qlen,
          distance_to_dst = Some dist\<rparr>, w))"

text \<open>\<^verbatim>\<open>d[k] = v\<close> on a dictionary kept in insertion order.\<close>

fun dict_set :: "'k \<Rightarrow> 'v \<Rightarrow> ('k \<times> 'v) list \<Rightarrow> ('k \<times> 'v) list" where
  "dict_set k v [] = [(k, v)]"
| "dict_set k v ((k', v') # kvs) =
     (if k' = k then (k, v) # kvs else (k', v') # dict_set k v kvs)"

text \<open>
  \<^verbatim>\<open>Node.__init__\<close>, with the model it constructs; \<open>now\<close> is the reading of the clock
  that \<^verbatim>\<open>LMLModel.__init__\<close> stores as the last tick.
\<close>

definition new_node :: "string \<Rightarrow> real \<Rightarrow> real \<Rightarrow> real \<Rightarrow> Node" where
  "new_node i x y now =
    \<lparr>nid = i, pos_x = x, pos_y = y, links = [],
     model = \<lparr>node_id = i, recent_in = 0, recent_out = 0, recent_fail = 0, last_tick = now\<rparr>,
     in_queue = [],
     out_stats = \<lparr>in_count = 0, out_count = 0, fail_count = 0, attempts = 0, queue_len = 0\<rparr>,
     delivered = [], running = False\<rparr>"

definition connect :: "nat \<Rightarrow> nat \<Rightarrow> real \<Rightarrow> World \<Rightarrow> World" where
  "connect s other bl w =
    (let l = \<lparr>link_a = s, link_b = other, base_loss = bl, queue_delay = 0.02\<rparr>;
         w = upd_node s (\<lambda>nd. nd\<lparr>links := dict_set (nid (nodes w other)) l (links nd)\<rparr>) w;
         w = upd_node other (\<lambda>nd. nd\<lparr>links := dict_set (nid (nodes w s)) l (links nd)\<rparr>) w
     in w)"

definition receive :: "nat \<Rightarrow> nat \<Rightarrow> World \<Rightarrow> World" where
  "receive n m w = upd_node n (\<lambda>nd. nd\<lparr>in_queue := in_queue nd @ [m]\<rparr>) w"

definition stop :: "nat \<Rightarrow> World \<Rightarrow> World" where
  "stop n w = upd_node n (\<lambda>nd. nd\<lparr>running := False\<rparr>) w"

text \<open>The neighbour at the other end of a link of node \<open>n\<close>.\<close>

definition neigh_of :: "World \<Rightarrow> nat \<Rightarrow> Link \<Rightarrow> nat" where
  "neigh_of w n l = (if nid (nodes w (link_b l)) = nid (nodes w n) then link_a l else link_b l)"

text \<open>
  The loop of \<^verbatim>\<open>process_message\<close> that fills \<^verbatim>\<open>next_hops\<close>. The keys of the
  dictionary \<^verbatim>\<open>links\<close> are distinct, so each assignment adds an entry at the end.
\<close>

fun collect_next_hops ::
  "nat \<Rightarrow> (string \<times> Link) list \<Rightarrow> World \<Rightarrow> (string \<times> hop_stats) list \<times> World" where
  "collect_next_hops n [] w = ([], w)"
| "collect_next_hops n ((k, l) # ls) w =
     (let (st, w) = stats_for l n (neigh_of w n l) w;
          (rest, w) = collect_next_hops n ls w
      in ((k, st) # rest, w))"

subsection \<open>Node.process\_message\<close>

text \<open>
  The message up to the delivery test: the node appended to the path, the type, the
  distress tag and the priority set. \<open>now\<close> is the reading of the clock in
  \<^verbatim>\<open>prioritize\<close>.
\<close>

definition stamp :: "Node \<Rightarrow> real \<Rightarrow> Message \<Rightarrow> Message" where
  "stamp self now msg =
    (let msg = msg\<lparr>path := path msg @ [nid self]\<rparr>;
         (mt, conf) = classify msg;
         msg = msg\<lparr>mtype := mt\<rparr>;
         msg = (if mt = DISTRESS \<and> conf > 0.7
                then msg\<lparr>meta := (meta msg)(''tag_distress'' \<mapsto> VBool True)\<rparr> else msg)
     in msg\<lparr>priority :=
              prioritize msg [''queue_len'' \<mapsto> int (length (in_queue self))] now\<rparr>)"

text \<open>The part after the router has chosen \<open>nxt\<close>: the simulated send.\<close>

definition send_to :: "nat \<Rightarrow> nat \<Rightarrow> string \<Rightarrow> World \<Rightarrow> error + World" where
  "send_to n m nxt w =
    (let w = upd_stats n (\<lambda>st. st\<lparr>attempts := attempts st + 1\<rparr>) w in
     case map_of (links (nodes w n)) nxt of
       None \<Rightarrow> Inl KeyError
     | Some l \<Rightarrow>
         let neigh = neigh_of w n l;
             (r, w) = random_random w
         in if r < base_loss l
            then Inr (upd_stats n (\<lambda>st. st\<lparr>fail_count := fail_count st + 1\<rparr>) w)
            else
              let w = upd_msg m (\<lambda>msg. msg\<lparr>hops := hops msg + 1\<rparr>) w;
                  w = receive neigh m w
              in Inr (upd_stats n (\<lambda>st. st\<lparr>out_count := out_count st + 1\<rparr>) w))"

text \<open>
  \<^verbatim>\<open>process_message\<close> in its three blocks. First the classification and the
  priority, written into the message; the clock is read once, by \<^verbatim>\<open>prioritize\<close>.
\<close>

definition classify_and_prioritize :: "nat \<Rightarrow> nat \<Rightarrow> World \<Rightarrow> World" where
  "classify_and_prioritize n m w =
    (let (now, w) = time_time w in upd_msg m (stamp (nodes w n) now) w)"

text \<open>Then the choice of the next hop: the statistics of every link, and the router.\<close>

definition pick_next_hop :: "nat \<Rightarrow> nat \<Rightarrow> World \<Rightarrow> (error + string option) \<times> World" where
  "pick_next_hop n m w =
    (let (next_hops, w) = collect_next_hops n (links (nodes w n)) w in
     (route next_hops [''queue_len'' \<mapsto> int (length (in_queue (nodes w n)))] (msgs w m), w))"

definition process_message :: "nat \<Rightarrow> nat \<Rightarrow> World \<Rightarrow> error + World" where
  "process_message n m w =
    (if nid (nodes w n) \<in> set (path (msgs w m)) then Inr w
     else
       let w = classify_and_prioritize n m w in
       if dst (msgs w m) = None \<or> dst (msgs w m) = Some (nid (nodes w n))
       then Inr (upd_node n (\<lambda>nd. nd\<lparr>delivered := delivered nd @ [m]\<rparr>) w)
       else
         let (nxt, w) = pick_next_hop n m w in
         case nxt of
           Inl e \<Rightarrow> Inl e
         | Inr None \<Rightarrow> Inr w
         | Inr (Some nxt) \<Rightarrow> send_to n m nxt w)"

subsection \<open>Node.run: one tick\<close>

text \<open>
  \<^verbatim>\<open>int(x)\<close> on a float truncates towards zero. The decay \<^verbatim>\<open>int(c*0.8)\<close> is
  computed on the exact product; for a counter below \<open>2^50\<close> the product in doubles
  truncates to the same integer.
\<close>

definition py_int :: "real \<Rightarrow> int" where
  "py_int x = (if x \<ge> 0 then \<lfloor>x\<rfloor> else \<lceil>x\<rceil>)"

definition decay :: "int \<Rightarrow> int" where
  "decay c = py_int (real_of_int c * 0.8)"

text \<open>
  The inner loop of \<^verbatim>\<open>run\<close>: \<open>k\<close> times, pop the head of the queue, count it and
  process it. \<^verbatim>\<open>pop(0)\<close> on an empty list raises \<^verbatim>\<open>IndexError\<close>.
\<close>

fun drain :: "nat \<Rightarrow> nat \<Rightarrow> World \<Rightarrow> error + World" where
  "drain 0 n w = Inr w"
| "drain (Suc k) n w =
     (case in_queue (nodes w n) of
        [] \<Rightarrow> Inl IndexError
      | m # q \<Rightarrow>
          let w = upd_node n (\<lambda>nd. nd\<lparr>in_queue := q\<rparr>) w;
              w = upd_stats n (\<lambda>st. st\<lparr>in_count := in_count st + 1\<rparr>) w
          in (case process_message n m w of
                Inl e \<Rightarrow> Inl e
              | Inr w \<Rightarrow> drain k n w))"

text \<open>
  The body of the \<^verbatim>\<open>while\<close> loop of \<^verbatim>\<open>run\<close> after the sleep: one tick. Nothing
  in it suspends (\<^verbatim>\<open>process_message\<close> awaits nothing), so no other node runs in
  between. The loop repeats the tick until \<^verbatim>\<open>stop\<close> has cleared the flag.
\<close>

definition run_tick :: "nat \<Rightarrow> World \<Rightarrow> error + World" where
  "run_tick n w =
    (let w = upd_stats n (\<lambda>st. st\<lparr>queue_len := int (length (in_queue (nodes w n)))\<rparr>) w in
     case drain (min 5 (length (in_queue (nodes w n)))) n w of
       Inl e \<Rightarrow> Inl e
     | Inr w \<Rightarrow>
         let (now, w) = time_time w in
         (case anomaly_score (model (nodes w n)) (stats_ctx (out_stats (nodes w n))) now of
            Inl e \<Rightarrow> Inl e
          | Inr (a, mdl) \<Rightarrow>
              let w = upd_node n (\<lambda>nd. nd\<lparr>model := mdl\<rparr>) w in
              Inr (upd_stats n (\<lambda>st. st\<lparr>in_count := decay (in_count st),
                                         out_count := decay (out_count st),
                                         fail_count := decay (fail_count st),
                                         attempts := decay (attempts st)\<rparr>) w)))"

subsection \<open>Example inputs\<close>

text \<open>A message addressed to node D, as \<^verbatim>\<open>demo.py\<close> builds them, with a given path.\<close>

definition demo_msg ::
  "string \<Rightarrow> string \<Rightarrow> (real \<times> real) option \<Rightarrow> string list \<Rightarrow> Message" where
  "demo_msg s t g p =
     \<lparr>src = s, dst = Some ''D'', msg_text = t, gps = g, timestamp = 0, mid = ''msg-0'',
      meta = Map.empty, priority = 0.0, mtype = UNKNOWN, hops = 0, path = p\<rparr>"

text \<open>A world whose nodes are fresh nodes named A, without links, holding one message.\<close>

definition lone_world :: "Message \<Rightarrow> World" where
  "lone_world msg =
     \<lparr>nodes = (\<lambda>_. new_node ''A'' 0 0 0), msgs = (\<lambda>_. msg),
      rand = (\<lambda>_. 0.5), rand_pos = 0, clock = (\<lambda>_. 1), clock_pos = 0\<rparr>"


text \<open>A world of nodes named A without links, with given counters and an empty queue.\<close>

definition counting_world :: "Stats \<Rightarrow> World" where
  "counting_world st =
     \<lparr>nodes = (\<lambda>_. (new_node ''A'' 0 0 0)\<lparr>out_stats := st\<rparr>),
      msgs = (\<lambda>_. demo_msg ''A'' ''help'' None []),
      rand = (\<lambda>_. 0.5), rand_pos = 0, clock = (\<lambda>_. 1), clock_pos = 0\<rparr>"

subsection \<open>Observations\<close>

text \<open>The counters of node \<open>n\<close> after a step that may have raised.\<close>

definition stats_after :: "nat \<Rightarrow> error + World \<Rightarrow> error + Stats" where
  "stats_after n r = (case r of Inl e \<Rightarrow> Inl e | Inr w \<Rightarrow> Inr (out_stats (nodes w n)))"

text \<open>
  Two states of a message agree on the identity fields: id, source, destination, text,
  coordinate and creation time.
\<close>

definition same_identity :: "Message \<Rightarrow> Message \<Rightarrow> bool" where
  "same_identity a b \<longleftrightarrow>
     mid a = mid b \<and> src a = src b \<and> dst a = dst b \<and> msg_text a = msg_text b
     \<and> gps a = gps b \<and> timestamp a = timestamp b"

subsection \<open>Conditions on inputs\<close>



section \<open>Properties\<close>

subsection \<open>Loop prevention\<close>

text \<open>
  C1. When a node processes a message whose path already contains the node's id,
  \<^verbatim>\<open>process_message\<close> returns at once: the world after the call is the world before
  it, so the path is not extended, no counter moves, no queue and no delivered list
  changes, and the message is the same.
\<close>

theorem process_message_in_path:
  "nid (nodes w n) \<in> set (path (msgs w m)) \<Longrightarrow> process_message n m w = Inr w"
  by (simp add: process_message_def)

theorem process_message_in_path_witness:
  "nid (nodes (lone_world (demo_msg ''A'' ''help'' None [''A''])) 0)
     \<in> set (path (msgs (lone_world (demo_msg ''A'' ''help'' None [''A''])) 0))
   \<and> process_message 0 0 (lone_world (demo_msg ''A'' ''help'' None [''A'']))
       = Inr (lone_world (demo_msg ''A'' ''help'' None [''A'']))"
proof -
  have h: "nid (nodes (lone_world (demo_msg ''A'' ''help'' None [''A''])) 0)
     \<in> set (path (msgs (lone_world (demo_msg ''A'' ''help'' None [''A''])) 0))"
    by (simp add: lone_world_def demo_msg_def new_node_def)
  show ?thesis using h process_message_in_path [OF h] by simp
qed

subsection \<open>Classification\<close>

lemma max_key_from_mem: "max_key_from best rest \<in> set (best # rest)"
  by (induction rest arbitrary: best) auto

lemma softclip_bounds: "lo \<le> hi \<Longrightarrow> lo \<le> softclip x lo hi \<and> softclip x lo hi \<le> hi"
  by (simp add: softclip_def)

text \<open>A count beats another count plus 2.5 exactly when it is larger by 3 or more.\<close>

lemma half_gap: "(real g + 5 / 2 < real d) = (g + 3 \<le> d)"
proof -
  have "(real g + 5 / 2 < real d) = (real (2 * g + 5) < real (2 * d))"
    by (simp add: field_simps)
  also have "\<dots> = (2 * g + 5 < 2 * d)"
    using of_nat_less_iff by blast
  also have "\<dots> = (g + 3 \<le> d)" by arith
  finally show ?thesis .
qed

lemma half_gap2: "(real d < real g + 5 / 2) = (d \<le> g + 2)"
proof -
  have "(real d < real g + 5 / 2) = (real (2 * d) < real (2 * g + 5))"
    by (simp add: field_simps)
  also have "\<dots> = (2 * d < 2 * g + 5)"
    using of_nat_less_iff by blast
  also have "\<dots> = (d \<le> g + 2)" by arith
  finally show ?thesis .
qed

lemmas keyword_defs =
  keyword_hits_def DISTRESS_KEYWORDS_def GPS_KEYWORDS_def SUPPLY_KEYWORDS_def
  STATUS_KEYWORDS_def lower_def lower_char_def upper_chars_def lower_chars_def

lemmas classify_defs =
  classify_def score_first_def score_rest_def gps_score_def softclip_def strip_def
  is_space_def demo_msg_def

text \<open>
  C2 (amended). For a message that carries a coordinate, \<^verbatim>\<open>classify\<close> returns GPS
  exactly when none of the distress, supply and status keyword counts exceeds the geo
  keyword count by more than 2: the bonus of 2.5 outweighs a lead of up to two
  keywords, and no more.
\<close>

theorem classify_gps_iff:
  assumes "gps msg \<noteq> None"
  shows "fst (classify msg) = GPS \<longleftrightarrow>
     keyword_hits DISTRESS_KEYWORDS (lower (msg_text msg))
        \<le> keyword_hits GPS_KEYWORDS (lower (msg_text msg)) + 2
   \<and> keyword_hits SUPPLY_KEYWORDS (lower (msg_text msg))
        \<le> keyword_hits GPS_KEYWORDS (lower (msg_text msg)) + 2
   \<and> keyword_hits STATUS_KEYWORDS (lower (msg_text msg))
        \<le> keyword_hits GPS_KEYWORDS (lower (msg_text msg)) + 2"
  using assms
  by (auto simp add: classify_def score_first_def score_rest_def gps_score_def Let_def
        half_gap half_gap2 split: prod.splits if_splits)

text \<open>The first message of \<^verbatim>\<open>demo.py\<close>: two distress keywords, a coordinate, GPS.\<close>

theorem classify_gps_iff_witness:
  "gps (demo_msg ''A'' ''HELP trapped under debris near school'' (Some (40.1, -74.2)) [])
     \<noteq> None
   \<and> fst (classify
       (demo_msg ''A'' ''HELP trapped under debris near school'' (Some (40.1, -74.2)) []))
     = GPS"
proof -
  have h: "gps (demo_msg ''A'' ''HELP trapped under debris near school''
                  (Some (40.1, -74.2)) []) \<noteq> None"
    by (simp add: demo_msg_def)
  show ?thesis
    using h classify_gps_iff [OF h]
    by (simp add: demo_msg_def keyword_defs)
qed

text \<open>
  The claim as stated fails: three distress keywords and no geo keyword give DISTRESS,
  coordinate or not.
\<close>

theorem classify_gps_counterexample:
  "gps (demo_msg ''A'' ''Help SOS fire'' (Some (40.1, -74.2)) []) \<noteq> None
   \<and> fst (classify (demo_msg ''A'' ''Help SOS fire'' (Some (40.1, -74.2)) [])) = DISTRESS"
  by (simp add: classify_defs keyword_defs)

lemma dropWhile_all: "(\<forall>x\<in>set (dropWhile P s). P x) \<longleftrightarrow> (\<forall>x\<in>set s. P x)"
proof
  assume a: "\<forall>x\<in>set (dropWhile P s). P x"
  have "dropWhile P s = []"
  proof (rule ccontr)
    assume n: "dropWhile P s \<noteq> []"
    then have "\<not> P (hd (dropWhile P s))" by (rule hd_dropWhile)
    moreover have "hd (dropWhile P s) \<in> set (dropWhile P s)" using n by simp
    ultimately show False using a by blast
  qed
  then show "\<forall>x\<in>set s. P x" by (simp add: dropWhile_eq_Nil_conv)
next
  assume "\<forall>x\<in>set s. P x"
  then show "\<forall>x\<in>set (dropWhile P s). P x" by (meson set_dropWhileD)
qed

lemma lower_char_space: "is_space (lower_char c) = is_space c"
  by (auto simp add: lower_char_def upper_chars_def lower_chars_def is_space_def
        split: option.splits if_splits)

lemma strip_empty_iff: "strip s = [] \<longleftrightarrow> list_all is_space s"
  by (simp add: strip_def dropWhile_eq_Nil_conv list_all_iff dropWhile_all)

lemma strip_lower_empty: "strip (lower s) = [] \<longleftrightarrow> list_all is_space s"
  by (simp add: strip_empty_iff lower_def list_all_iff lower_char_space)

lemma distress_key:
  "max_key_from (score_first msg) (score_rest msg) = (DISTRESS, s) \<Longrightarrow>
   s = real (keyword_hits DISTRESS_KEYWORDS (lower (msg_text msg)))"
  using max_key_from_mem [of "score_first msg" "score_rest msg"]
  by (auto simp add: score_first_def score_rest_def)

text \<open>
  C3 (amended). The confidence returned by \<^verbatim>\<open>classify\<close> always lies within
  [0.10, 1.00]. It lies within [0.10, 0.99] except when the type is DISTRESS with three
  or more distress keywords: then it is exactly 1.00, the boost of 0.20 being clipped to
  [0, 1] only. For a text that is empty or all whitespace, without a coordinate, the
  result is UNKNOWN with confidence exactly 0.20.
\<close>

theorem classify_confidence:
  "0.1 \<le> snd (classify msg) \<and> snd (classify msg) \<le> 1
   \<and> (snd (classify msg) \<le> 0.99
       \<or> fst (classify msg) = DISTRESS
          \<and> 3 \<le> keyword_hits DISTRESS_KEYWORDS (lower (msg_text msg))
          \<and> snd (classify msg) = 1)
   \<and> (fst (classify msg) = DISTRESS
        \<and> 3 \<le> keyword_hits DISTRESS_KEYWORDS (lower (msg_text msg))
        \<longrightarrow> snd (classify msg) = 1)
   \<and> (list_all is_space (msg_text msg) \<and> gps msg = None
        \<longrightarrow> classify msg = (UNKNOWN, 0.2))"
proof -
  obtain mt s where ms: "max_key_from (score_first msg) (score_rest msg) = (mt, s)"
    by (cases "max_key_from (score_first msg) (score_rest msg)")
  define h where "h = keyword_hits DISTRESS_KEYWORDS (lower (msg_text msg))"
  have d: "mt = DISTRESS \<Longrightarrow> s = real h"
    using ms distress_key by (simp add: h_def)
  show ?thesis
  proof (cases "list_all is_space (msg_text msg) \<and> gps msg = None")
    case True
    then have "classify msg = (UNKNOWN, 0.2)"
      by (simp add: classify_def strip_lower_empty)
    then show ?thesis by simp
  next
    case False
    then have c: "classify msg =
       (mt, if mt = DISTRESS \<and> s \<ge> 2 then softclip (softclip (s / 3) 0.1 0.99 + 0.2) 0 1
            else softclip (s / 3) 0.1 0.99)"
      using ms by (auto simp add: classify_def strip_lower_empty Let_def)
    have lo: "0.1 \<le> softclip (s / 3) 0.1 0.99" and hi: "softclip (s / 3) 0.1 0.99 \<le> 0.99"
      by (simp_all add: softclip_def)
    show ?thesis
    proof (cases "mt = DISTRESS")
      case nd: False
      then show ?thesis using c lo hi False by auto
    next
      case True
      then have s: "s = real h" by (rule d)
      consider "h \<le> 1" | "h = 2" | "3 \<le> h" by linarith
      then show ?thesis
      proof cases
        case 1
        then have "\<not> s \<ge> 2" using s by simp
        then show ?thesis using c lo hi True False 1 by (auto simp add: h_def [symmetric])
      next
        case 2
        then have "softclip (softclip (s / 3) 0.1 0.99 + 0.2) 0 1 = 13 / 15"
          using s by (simp add: softclip_def)
        then show ?thesis using c True False 2 s by (auto simp add: h_def [symmetric])
      next
        case 3
        then have "3 \<le> s" using s by simp
        then have "softclip (softclip (s / 3) 0.1 0.99 + 0.2) 0 1 = 1"
          by (simp add: softclip_def)
        moreover have "s \<ge> 2" using \<open>3 \<le> s\<close> by simp
        ultimately show ?thesis using c True False 3 by (auto simp add: h_def [symmetric])
      qed
    qed
  qed
qed

text \<open>A text of a blank and a no-break space (0xA0), without a coordinate.\<close>

theorem classify_confidence_witness:
  "list_all is_space (msg_text (demo_msg ''B'' [CHR '' '', CHR 0xA0] None []))
   \<and> gps (demo_msg ''B'' [CHR '' '', CHR 0xA0] None []) = None
   \<and> classify (demo_msg ''B'' [CHR '' '', CHR 0xA0] None []) = (UNKNOWN, 0.2)
   \<and> fst (classify (demo_msg ''B'' ''sos! fire, flood'' None [])) = DISTRESS
   \<and> 3 \<le> keyword_hits DISTRESS_KEYWORDS
            (lower (msg_text (demo_msg ''B'' ''sos! fire, flood'' None [])))
   \<and> snd (classify (demo_msg ''B'' ''sos! fire, flood'' None [])) = 1"
proof -
  have h: "fst (classify (demo_msg ''B'' ''sos! fire, flood'' None [])) = DISTRESS"
    "3 \<le> keyword_hits DISTRESS_KEYWORDS
            (lower (msg_text (demo_msg ''B'' ''sos! fire, flood'' None [])))"
    by (simp_all add: classify_defs keyword_defs)
  show ?thesis
    using h classify_confidence [of "demo_msg ''B'' [CHR '' '', CHR 0xA0] None []"]
      classify_confidence [of "demo_msg ''B'' ''sos! fire, flood'' None []"]
    by (simp add: demo_msg_def is_space_def)
qed

text \<open>
  The claim as stated fails: with three distress keywords the type is DISTRESS, a
  classified type, and the confidence is 1.
\<close>

theorem classify_confidence_counterexample:
  "classify (demo_msg ''B'' ''mayday: fire and flood'' None []) = (DISTRESS, 1)"
  by (simp add: classify_defs keyword_defs)

subsection \<open>Routing\<close>





subsection \<open>Anomaly score\<close>

lemma anomaly_score_total:
  assumes "0 \<le> ctx_get ctx ''in_count'' 0" "0 \<le> ctx_get ctx ''out_count'' 0"
  shows "\<exists>s. anomaly_score mdl ctx now = Inr (s, mdl\<lparr>last_tick := now\<rparr>)
           \<and> 0 \<le> s \<and> s \<le> 1"
proof -
  define dt where "dt = max 0.001 (now - last_tick mdl)"
  have dt: "0 < dt" by (simp add: dt_def)
  have "0 \<le> real_of_int (ctx_get ctx ''in_count'' 0) / dt"
       "0 \<le> real_of_int (ctx_get ctx ''out_count'' 0) / dt"
    using assms dt by simp_all
  then have nz: "1 + real_of_int (ctx_get ctx ''in_count'' 0) / dt
            + real_of_int (ctx_get ctx ''out_count'' 0) / dt \<noteq> 0"
    by linarith
  show ?thesis
    using nz softclip_bounds [of 0 1]
    by (simp add: anomaly_score_def Let_def dt_def)
qed

text \<open>
  C7. For every context whose counts are not negative, \<^verbatim>\<open>anomaly_score\<close> returns
  a value in [0, 1] and raises nothing, also when the attempted count is zero or
  missing: the elapsed time is at least 0.001, the attempted count enters as
  \<^verbatim>\<open>max(1.0, attempts)\<close>, and the last divisor is at least 1. The model's last tick is
  advanced to the clock reading.
\<close>

theorem anomaly_score_range:
  assumes "\<forall>k v. ctx k = Some v \<longrightarrow> 0 \<le> v"
  shows "\<exists>s. anomaly_score mdl ctx now = Inr (s, mdl\<lparr>last_tick := now\<rparr>)
           \<and> 0 \<le> s \<and> s \<le> 1"
proof -
  have i: "0 \<le> ctx_get ctx ''in_count'' 0" and o: "0 \<le> ctx_get ctx ''out_count'' 0"
    using assms by (auto simp add: ctx_get_def split: option.splits)
  show ?thesis by (rule anomaly_score_total [OF i o])
qed

text \<open>The counters of a node that has failed twice in three attempts, attempts at 0.\<close>

theorem anomaly_score_range_witness:
  "\<exists>s. anomaly_score (model (new_node ''A'' 0 0 0))
          (stats_ctx \<lparr>in_count = 3, out_count = 1, fail_count = 2, attempts = 0,
                      queue_len = 4\<rparr>) 5
        = Inr (s, (model (new_node ''A'' 0 0 0))\<lparr>last_tick := 5\<rparr>) \<and> 0 \<le> s \<and> s \<le> 1"
proof -
  have h: "\<forall>k v. stats_ctx \<lparr>in_count = 3, out_count = 1, fail_count = 2, attempts = 0,
                      queue_len = 4\<rparr> k = Some v \<longrightarrow> 0 \<le> v"
    by (simp add: stats_ctx_def)
  show ?thesis by (rule anomaly_score_range [OF h])
qed

subsection \<open>The store: what each step leaves alone\<close>

lemma upd_node_simps:
  "msgs (upd_node n f w) = msgs w" "rand (upd_node n f w) = rand w"
  "nodes (upd_node n f w) = (nodes w)(n := f (nodes w n))"
  by (simp_all add: upd_node_def)

lemma upd_msg_simps:
  "nodes (upd_msg m f w) = nodes w"
  "msgs (upd_msg m f w) = (msgs w)(m := f (msgs w m))"
  by (simp_all add: upd_msg_def)

lemma upd_stats_simps:
  "msgs (upd_stats n f w) = msgs w"
  "nodes (upd_stats n f w) = (nodes w)(n := (nodes w n)\<lparr>out_stats := f (out_stats (nodes w n))\<rparr>)"
  by (simp_all add: upd_stats_def upd_node_def)

lemma random_random_simps:
  "nodes (snd (random_random w)) = nodes w" "msgs (snd (random_random w)) = msgs w"
  by (simp_all add: random_random_def)

lemma time_time_simps:
  "nodes (snd (time_time w)) = nodes w" "msgs (snd (time_time w)) = msgs w"
  by (simp_all add: time_time_def)

lemma stats_for_frame:
  "nodes (snd (stats_for l s d w)) = nodes w" "msgs (snd (stats_for l s d w)) = msgs w"
  by (simp_all add: stats_for_def random_random_def Let_def split: prod.splits)

lemma stats_for_score: "\<exists>sc. route_score p (fst (stats_for l s d w)) = Inr sc"
proof -
  have "0 \<le> distance_to (nodes w s) (nodes w d)"
    by (simp add: distance_to_def)
  then show ?thesis
    by (simp add: stats_for_def random_random_def Let_def route_score_def split: prod.splits)
qed

lemma collect_Cons:
  "stats_for l n (neigh_of w n l) w = (st, w1) \<Longrightarrow> collect_next_hops n ls w1 = (rest, w2) \<Longrightarrow>
   collect_next_hops n ((k, l) # ls) w = ((k, st) # rest, w2)"
  by simp

lemma collect_frame:
  "nodes (snd (collect_next_hops n ls w)) = nodes w \<and> msgs (snd (collect_next_hops n ls w)) = msgs w"
proof (induction ls arbitrary: w)
  case Nil
  then show ?case by simp
next
  case (Cons a ls)
  obtain k l where a: "a = (k, l)" by (cases a)
  obtain st w1 where s: "stats_for l n (neigh_of w n l) w = (st, w1)"
    by (cases "stats_for l n (neigh_of w n l) w")
  obtain rest w2 where r: "collect_next_hops n ls w1 = (rest, w2)"
    by (cases "collect_next_hops n ls w1")
  have "nodes w1 = nodes w" "msgs w1 = msgs w"
    using stats_for_frame [of l n "neigh_of w n l" w] s by simp_all
  moreover have "nodes w2 = nodes w1" "msgs w2 = msgs w1"
    using Cons.IH [of w1] r by simp_all
  ultimately show ?case using collect_Cons [OF s r] a by simp
qed

lemma collect_keys: "map fst (fst (collect_next_hops n ls w)) = map fst ls"
proof (induction ls arbitrary: w)
  case Nil
  then show ?case by simp
next
  case (Cons a ls)
  obtain k l where a: "a = (k, l)" by (cases a)
  obtain st w1 where s: "stats_for l n (neigh_of w n l) w = (st, w1)"
    by (cases "stats_for l n (neigh_of w n l) w")
  obtain rest w2 where r: "collect_next_hops n ls w1 = (rest, w2)"
    by (cases "collect_next_hops n ls w1")
  have "map fst rest = map fst ls" using Cons.IH [of w1] r by simp
  then show ?case using collect_Cons [OF s r] a by simp
qed

lemma collect_scores:
  "(k, st) \<in> set (fst (collect_next_hops n ls w)) \<Longrightarrow> \<exists>sc. route_score p st = Inr sc"
proof (induction ls arbitrary: w)
  case Nil
  then show ?case by simp
next
  case (Cons a ls)
  obtain k' l where a: "a = (k', l)" by (cases a)
  obtain st' w1 where s: "stats_for l n (neigh_of w n l) w = (st', w1)"
    by (cases "stats_for l n (neigh_of w n l) w")
  obtain rest w2 where r: "collect_next_hops n ls w1 = (rest, w2)"
    by (cases "collect_next_hops n ls w1")
  have st': "\<exists>sc. route_score p st' = Inr sc"
    using stats_for_score [of p l n "neigh_of w n l" w] s by simp
  have "(k, st) = (k', st') \<or> (k, st) \<in> set rest"
    using Cons.prems collect_Cons [OF s r] a by simp
  then show ?case
  proof
    assume "(k, st) = (k', st')"
    then show ?thesis using st' by simp
  next
    assume "(k, st) \<in> set rest"
    then show ?thesis using Cons.IH [of w1] r by simp
  qed
qed

lemma route_loop_total:
  "\<forall>x\<in>set nh. \<exists>sc. route_score p (snd x) = Inr sc \<Longrightarrow>
   \<exists>r. route_loop p nh bn bs = Inr r \<and> (r = bn \<or> r \<in> Some ` fst ` set nh)"
proof (induction nh arbitrary: bn bs)
  case Nil
  then show ?case by simp
next
  case (Cons a nh)
  obtain k st where a: "a = (k, st)" by (cases a)
  obtain sc where sc: "route_score p st = Inr sc" using Cons.prems a by auto
  have rest: "\<forall>x\<in>set nh. \<exists>sc. route_score p (snd x) = Inr sc"
    using Cons.prems by simp
  show ?case
  proof (cases "sc > bs")
    case True
    obtain r where "route_loop p nh (Some k) sc = Inr r" "r = Some k \<or> r \<in> Some ` fst ` set nh"
      using Cons.IH [OF rest] by blast
    then show ?thesis using a sc True by auto
  next
    case False
    obtain r where "route_loop p nh bn bs = Inr r" "r = bn \<or> r \<in> Some ` fst ` set nh"
      using Cons.IH [OF rest] by blast
    then show ?thesis using a sc False by auto
  qed
qed

lemma pick_next_hop_result:
  "\<exists>r w'. pick_next_hop n m w = (Inr r, w') \<and> nodes w' = nodes w \<and> msgs w' = msgs w
     \<and> (r = None \<or> r \<in> Some ` fst ` set (links (nodes w n)))"
proof -
  obtain nh w' where c: "collect_next_hops n (links (nodes w n)) w = (nh, w')"
    by (cases "collect_next_hops n (links (nodes w n)) w")
  have f: "nodes w' = nodes w" "msgs w' = msgs w"
    using collect_frame [of n "links (nodes w n)" w] c by simp_all
  have k: "fst ` set nh = fst ` set (links (nodes w n))"
    using collect_keys [of n "links (nodes w n)" w] c by (metis fst_conv set_map)
  have s: "\<forall>x\<in>set nh. \<exists>sc. route_score (priority (msgs w' m)) (snd x) = Inr sc"
    using collect_scores [of _ _ n "links (nodes w n)" w] c by auto
  obtain r where r: "route_loop (priority (msgs w' m)) nh None (- 1000000000) = Inr r"
      "r = None \<or> r \<in> Some ` fst ` set nh"
    using route_loop_total [OF s] by blast
  have "route nh [''queue_len'' \<mapsto> int (length (in_queue (nodes w' n)))] (msgs w' m) = Inr r"
    using r by (cases nh) (auto simp add: route_def)
  then show ?thesis using c f k r(2) by (simp add: pick_next_hop_def)
qed

lemma pick_next_hop_no_links:
  "links (nodes w n) = [] \<Longrightarrow> fst (pick_next_hop n m w) = Inr None"
  by (simp add: pick_next_hop_def route_def)

lemma stamp_identity: "same_identity (stamp self now msg) msg"
  by (simp add: stamp_def same_identity_def Let_def split: prod.splits)

lemma classify_and_prioritize_frame:
  "nodes (classify_and_prioritize n m w) = nodes w"
  "msgs (classify_and_prioritize n m w) k
     = (if k = m then stamp (nodes w n) (clock w (clock_pos w)) (msgs w m) else msgs w k)"
  by (simp_all add: classify_and_prioritize_def time_time_def upd_msg_def)

lemma send_to_result:
  assumes "nxt \<in> fst ` set (links (nodes w n))"
  shows "\<exists>w'. send_to n m nxt w = Inr w' \<and> (\<forall>k. same_identity (msgs w' k) (msgs w k))"
proof -
  obtain l where l: "map_of (links (nodes w n)) nxt = Some l"
    using assms by (metis domD dom_map_of_conv_image_fst)
  then show ?thesis
    by (auto simp add: send_to_def upd_stats_def upd_node_def upd_msg_def receive_def
          random_random_def same_identity_def Let_def split: prod.splits)
qed

text \<open>
  C9. \<^verbatim>\<open>process_message\<close> raises nothing, and in the world it returns every message
  has the id, source, destination, text, coordinate and creation time it had before;
  for the message processed, only path, type, meta, priority and hop count are written.
\<close>

theorem process_message_identity:
  "\<exists>w'. process_message n m w = Inr w' \<and> (\<forall>k. same_identity (msgs w' k) (msgs w k))"
proof (cases "nid (nodes w n) \<in> set (path (msgs w m))")
  case True
  then show ?thesis by (simp add: process_message_def same_identity_def)
next
  case False
  define w1 where "w1 = classify_and_prioritize n m w"
  have n1: "nodes w1 = nodes w"
    by (simp add: w1_def classify_and_prioritize_frame)
  have i1: "\<forall>k. same_identity (msgs w1 k) (msgs w k)"
    using stamp_identity
    by (simp add: w1_def classify_and_prioritize_frame) (simp add: same_identity_def)
  show ?thesis
  proof (cases "dst (msgs w1 m) = None \<or> dst (msgs w1 m) = Some (nid (nodes w1 n))")
    case True
    then have "process_message n m w
        = Inr (upd_node n (\<lambda>nd. nd\<lparr>delivered := delivered nd @ [m]\<rparr>) w1)"
      using False unfolding process_message_def Let_def w1_def by simp
    then show ?thesis using i1 by (simp add: upd_node_simps)
  next
    case nd: False
    obtain r w2 where p: "pick_next_hop n m w1 = (Inr r, w2)" "nodes w2 = nodes w1"
        "msgs w2 = msgs w1" "r = None \<or> r \<in> Some ` fst ` set (links (nodes w1 n))"
      using pick_next_hop_result [of n m w1] by blast
    have nd1: "dst (msgs w1 m) \<noteq> None" "dst (msgs w1 m) \<noteq> Some (nid (nodes w1 n))"
      using nd by simp_all
    have pm: "process_message n m w
        = (case r of None \<Rightarrow> Inr w2 | Some nxt \<Rightarrow> send_to n m nxt w2)"
      using False nd1 p(1) unfolding process_message_def Let_def w1_def by auto
    show ?thesis
    proof (cases r)
      case None
      then show ?thesis using pm p(3) i1 by simp
    next
      case (Some nxt)
      then have "nxt \<in> fst ` set (links (nodes w2 n))" using p(2,4) by auto
      then obtain w3 where "send_to n m nxt w2 = Inr w3"
          "\<forall>k. same_identity (msgs w3 k) (msgs w2 k)"
        using send_to_result by blast
      then show ?thesis using pm Some p(3) i1 by (auto simp add: same_identity_def)
    qed
  qed
qed

text \<open>
  C8. A node processes a message addressed to another node, and the router returns
  none, as it does when the node has no links. Then \<^verbatim>\<open>process_message\<close> returns
  without raising, and every node is as it was before: no counter has moved (attempts,
  failures and successes included), no queue has received the message, no delivered
  list has grown.
\<close>

theorem process_message_no_route:
  assumes "dst (msgs w m) = Some d" "d \<noteq> nid (nodes w n)"
    and "links (nodes w n) = [] \<or> fst (pick_next_hop n m (classify_and_prioritize n m w)) = Inr None"
  shows "\<exists>w'. process_message n m w = Inr w' \<and> nodes w' = nodes w"
proof (cases "nid (nodes w n) \<in> set (path (msgs w m))")
  case True
  then show ?thesis by (simp add: process_message_def)
next
  case False
  define w1 where "w1 = classify_and_prioritize n m w"
  have n1: "nodes w1 = nodes w"
    by (simp add: w1_def classify_and_prioritize_frame)
  have "same_identity (msgs w1 m) (msgs w m)"
    using stamp_identity by (simp add: w1_def classify_and_prioritize_frame)
  then have d1: "dst (msgs w1 m) = Some d"
    using assms(1) by (simp add: same_identity_def)
  have none: "fst (pick_next_hop n m w1) = Inr None"
    using assms(3) pick_next_hop_no_links [of w1 n m] n1 by (auto simp add: w1_def)
  obtain r w2 where p: "pick_next_hop n m w1 = (Inr r, w2)" "nodes w2 = nodes w1"
    using pick_next_hop_result [of n m w1] by blast
  have "r = None" using none p(1) by simp
  then have "process_message n m w = Inr w2"
    using False d1 assms(2) n1 p(1)
    unfolding process_message_def Let_def w1_def by simp
  then show ?thesis using p(2) n1 by simp
qed

theorem process_message_no_route_witness:
  "dst (msgs (lone_world (demo_msg ''B'' ''status ok'' None [])) 0) = Some ''D''
   \<and> links (nodes (lone_world (demo_msg ''B'' ''status ok'' None [])) 0) = []
   \<and> (\<exists>w'. process_message 0 0 (lone_world (demo_msg ''B'' ''status ok'' None [])) = Inr w'
          \<and> nodes w' = nodes (lone_world (demo_msg ''B'' ''status ok'' None [])))"
proof -
  have d: "dst (msgs (lone_world (demo_msg ''B'' ''status ok'' None [])) 0) = Some ''D''"
    by (simp add: lone_world_def demo_msg_def)
  have n: "''D'' \<noteq> nid (nodes (lone_world (demo_msg ''B'' ''status ok'' None [])) 0)"
    by (simp add: lone_world_def new_node_def)
  have l: "links (nodes (lone_world (demo_msg ''B'' ''status ok'' None [])) 0) = []"
    by (simp add: lone_world_def new_node_def)
  show ?thesis
    using d l process_message_no_route [OF d n disjI1 [OF l]] by simp
qed

subsection \<open>Decay of the counters\<close>

lemma decay_floor: "0 \<le> c \<Longrightarrow> decay c = \<lfloor>0.8 * real_of_int c\<rfloor>"
  by (simp add: decay_def py_int_def mult.commute)

text \<open>
  C4 (amended). A tick of a node whose queue is empty, with counters that are not
  negative, raises nothing and leaves each of \<^verbatim>\<open>in_count\<close>, \<^verbatim>\<open>out_count\<close>,
  \<^verbatim>\<open>fail_count\<close> and \<^verbatim>\<open>attempts\<close> at 0.8 times its value rounded down to an
  integer, as \<^verbatim>\<open>int(c*0.8)\<close> truncates; the queue is still empty, so the same holds
  for the next idle tick.
\<close>

theorem idle_tick_decay:
  assumes "in_queue (nodes w n) = []"
    and "0 \<le> in_count (out_stats (nodes w n))" "0 \<le> out_count (out_stats (nodes w n))"
    and "0 \<le> fail_count (out_stats (nodes w n))" "0 \<le> attempts (out_stats (nodes w n))"
  shows "\<exists>w'. run_tick n w = Inr w'
     \<and> in_count (out_stats (nodes w' n)) = \<lfloor>0.8 * real_of_int (in_count (out_stats (nodes w n)))\<rfloor>
     \<and> out_count (out_stats (nodes w' n)) = \<lfloor>0.8 * real_of_int (out_count (out_stats (nodes w n)))\<rfloor>
     \<and> fail_count (out_stats (nodes w' n)) = \<lfloor>0.8 * real_of_int (fail_count (out_stats (nodes w n)))\<rfloor>
     \<and> attempts (out_stats (nodes w' n)) = \<lfloor>0.8 * real_of_int (attempts (out_stats (nodes w n)))\<rfloor>
     \<and> in_queue (nodes w' n) = []"
proof -
  define w1 where "w1 = upd_stats n (\<lambda>st. st\<lparr>queue_len := int (length (in_queue (nodes w n)))\<rparr>) w"
  define w2 where "w2 = snd (time_time w1)"
  define ctx where "ctx = stats_ctx (out_stats (nodes w2 n))"
  have st2: "out_stats (nodes w2 n) = (out_stats (nodes w n))\<lparr>queue_len := 0\<rparr>"
    using assms(1) by (simp add: w2_def w1_def time_time_def upd_stats_def upd_node_def)
  have q2: "in_queue (nodes w2 n) = []"
    using assms(1) by (simp add: w2_def w1_def time_time_def upd_stats_def upd_node_def)
  have "0 \<le> ctx_get ctx ''in_count'' 0" "0 \<le> ctx_get ctx ''out_count'' 0"
    using assms(2,3) by (simp_all add: ctx_def st2 stats_ctx_def ctx_get_def)
  then obtain s where s: "anomaly_score (model (nodes w2 n)) ctx (clock w1 (clock_pos w1))
      = Inr (s, (model (nodes w2 n))\<lparr>last_tick := clock w1 (clock_pos w1)\<rparr>)"
    using anomaly_score_total by blast
  define w3 where "w3 = upd_node n (\<lambda>nd. nd\<lparr>model := (model (nodes w2 n))\<lparr>last_tick := clock w1 (clock_pos w1)\<rparr>\<rparr>) w2"
  define w4 where "w4 = upd_stats n (\<lambda>st. st\<lparr>in_count := decay (in_count st),
                                        out_count := decay (out_count st),
                                        fail_count := decay (fail_count st),
                                        attempts := decay (attempts st)\<rparr>) w3"
  have "in_queue (nodes w1 n) = []"
    using assms(1) by (simp add: w1_def upd_stats_def upd_node_def)
  then have r: "run_tick n w = Inr w4"
    using s unfolding run_tick_def Let_def
    by (simp add: w1_def [symmetric] time_time_def w2_def ctx_def w3_def w4_def)
  have "out_stats (nodes w4 n) = (out_stats (nodes w n))
      \<lparr>queue_len := 0, in_count := decay (in_count (out_stats (nodes w n))),
        out_count := decay (out_count (out_stats (nodes w n))),
        fail_count := decay (fail_count (out_stats (nodes w n))),
        attempts := decay (attempts (out_stats (nodes w n)))\<rparr>"
    using st2 by (simp add: w4_def w3_def upd_stats_def upd_node_def)
  moreover have "in_queue (nodes w4 n) = []"
    using q2 by (simp add: w4_def w3_def upd_stats_def upd_node_def)
  ultimately show ?thesis using r assms(2-5) by (simp add: decay_floor)
qed

theorem idle_tick_decay_witness:
  "\<exists>w'. run_tick 0 (counting_world
            \<lparr>in_count = 5, out_count = 3, fail_count = 0, attempts = 4, queue_len = 2\<rparr>)
          = Inr w'
     \<and> in_count (out_stats (nodes w' 0)) = 4 \<and> out_count (out_stats (nodes w' 0)) = 2
     \<and> fail_count (out_stats (nodes w' 0)) = 0 \<and> attempts (out_stats (nodes w' 0)) = 3
     \<and> in_queue (nodes w' 0) = []"
proof -
  have q: "in_queue (nodes (counting_world
            \<lparr>in_count = 5, out_count = 3, fail_count = 0, attempts = 4, queue_len = 2\<rparr>) 0)
         = []"
    by (simp add: counting_world_def new_node_def)
  have c: "0 \<le> in_count (out_stats (nodes (counting_world
            \<lparr>in_count = 5, out_count = 3, fail_count = 0, attempts = 4, queue_len = 2\<rparr>) 0))"
    "0 \<le> out_count (out_stats (nodes (counting_world
            \<lparr>in_count = 5, out_count = 3, fail_count = 0, attempts = 4, queue_len = 2\<rparr>) 0))"
    "0 \<le> fail_count (out_stats (nodes (counting_world
            \<lparr>in_count = 5, out_count = 3, fail_count = 0, attempts = 4, queue_len = 2\<rparr>) 0))"
    "0 \<le> attempts (out_stats (nodes (counting_world
            \<lparr>in_count = 5, out_count = 3, fail_count = 0, attempts = 4, queue_len = 2\<rparr>) 0))"
    by (simp_all add: counting_world_def)
  show ?thesis
    using idle_tick_decay [OF q c]
    by (simp add: counting_world_def)
qed

text \<open>
  The claim as stated fails: after an idle tick the counters 1, 3 and 4 are 0, 2 and 3,
  not 0.8, 2.4 and 3.2.
\<close>

theorem idle_tick_counterexample:
  "stats_after 0 (run_tick 0 (counting_world
      \<lparr>in_count = 1, out_count = 3, fail_count = 0, attempts = 4, queue_len = 0\<rparr>))
   = Inr \<lparr>in_count = 0, out_count = 2, fail_count = 0, attempts = 3, queue_len = 0\<rparr>"
  by (simp add: stats_after_def run_tick_def counting_world_def new_node_def upd_stats_def
        upd_node_def time_time_def anomaly_score_def stats_ctx_def ctx_get_def softclip_def
        decay_def py_int_def Let_def)

end
